theory Spec2Isabelle
  imports Main "HOL-Library.Sublist"
begin

section \<open>JavaScript values\<close>

text \<open>
  The values that flow through \<^verbatim>\<open>offline-link.js\<close> are plain JavaScript data: the redux
  state, GraphQL documents, variables, error objects. They are modelled by one datatype.
  Numbers are integers (the only number the file computes with is the retry count, so
  \<^verbatim>\<open>NaN\<close> and fractions do not occur); an object is the association list of its own
  enumerable properties. Functions are not data of this type: the two places where the
  source accepts a function or a value take a \<open>js_or_fun\<close>.
\<close>

datatype jsval =
    JUndefined
  | JNull
  | JBool bool
  | JNum int
  | JStr string
  | JArr "jsval list"
  | JObj "(string \<times> jsval) list"

text \<open>What a \<^verbatim>\<open>throw\<close> carries: the engine's \<^verbatim>\<open>TypeError\<close>, or a value thrown by
  a library or by user code.\<close>

datatype error = TypeError | Thrown jsval

datatype 'a js_or_fun = Val jsval | Fun "'a \<Rightarrow> error + jsval"

definition bindE :: "error + 'a \<Rightarrow> ('a \<Rightarrow> error + 'b) \<Rightarrow> error + 'b" where
  "bindE m f = (case m of Inl e \<Rightarrow> Inl e | Inr v \<Rightarrow> f v)"

text \<open>Truthiness, as \<^verbatim>\<open>if (v)\<close>, \<^verbatim>\<open>!v\<close>, \<^verbatim>\<open>v ? a : b\<close> and \<^verbatim>\<open>a || b\<close> test it.\<close>

fun truthy :: "jsval \<Rightarrow> bool" where
  "truthy JUndefined = False"
| "truthy JNull = False"
| "truthy (JBool b) = b"
| "truthy (JNum n) = (n \<noteq> 0)"
| "truthy (JStr s) = (s \<noteq> [])"
| "truthy (JArr xs) = True"
| "truthy (JObj ps) = True"

text \<open>Decimal property names of array and string indices.\<close>

fun show_nat :: "nat \<Rightarrow> string" where
  "show_nat n =
     (if n < 10 then [char_of (48 + n)]
      else show_nat (n div 10) @ [char_of (48 + n mod 10)])"

declare show_nat.simps [simp del]

definition indexed :: "jsval list \<Rightarrow> (string \<times> jsval) list" where
  "indexed xs = zip (map show_nat [0..<length xs]) xs"

definition lookup :: "(string \<times> jsval) list \<Rightarrow> string \<Rightarrow> jsval" where
  "lookup ps k = (case map_of ps k of None \<Rightarrow> JUndefined | Some v \<Rightarrow> v)"

text \<open>
  Reading a property, \<^verbatim>\<open>v.k\<close> or one level of a destructuring pattern: a
  \<^verbatim>\<open>TypeError\<close> on \<^verbatim>\<open>undefined\<close> and \<^verbatim>\<open>null\<close>, \<^verbatim>\<open>undefined\<close> for a property
  the value does not have.
\<close>

fun getprop :: "jsval \<Rightarrow> string \<Rightarrow> error + jsval" where
  "getprop JUndefined k = Inl TypeError"
| "getprop JNull k = Inl TypeError"
| "getprop (JObj ps) k = Inr (lookup ps k)"
| "getprop (JArr xs) k =
     Inr (if k = ''length'' then JNum (int (length xs)) else lookup (indexed xs) k)"
| "getprop (JStr s) k =
     Inr (if k = ''length'' then JNum (int (length s))
          else lookup (indexed (map (\<lambda>c. JStr [c]) s)) k)"
| "getprop (JBool b) k = Inr JUndefined"
| "getprop (JNum n) k = Inr JUndefined"

text \<open>A destructuring pattern with a default, \<^verbatim>\<open>const { k = d } = v\<close>: the default
  stands in for \<^verbatim>\<open>undefined\<close> only.\<close>

definition getprop_default :: "jsval \<Rightarrow> string \<Rightarrow> jsval \<Rightarrow> error + jsval" where
  "getprop_default v k d =
     bindE (getprop v k) (\<lambda>x. Inr (if x = JUndefined then d else x))"

text \<open>Object spread \<^verbatim>\<open>{ ...v }\<close>: a fresh object with the own enumerable properties
  of \<open>v\<close>.\<close>

fun spread :: "jsval \<Rightarrow> jsval" where
  "spread (JObj ps) = JObj ps"
| "spread (JArr xs) = JObj (indexed xs)"
| "spread (JStr s) = JObj (indexed (map (\<lambda>c. JStr [c]) s))"
| "spread v = JObj []"

text \<open>\<^verbatim>\<open>Array.prototype.find\<close> with a callback that may throw; a value that is not
  an array has no \<^verbatim>\<open>find\<close> method, so the call is a \<^verbatim>\<open>TypeError\<close>.\<close>

fun find_js :: "(jsval \<Rightarrow> error + bool) \<Rightarrow> jsval list \<Rightarrow> error + jsval" where
  "find_js p [] = Inr JUndefined"
| "find_js p (x # xs) =
     (case p x of
        Inl e \<Rightarrow> Inl e
      | Inr b \<Rightarrow> if b then Inr x else find_js p xs)"

definition array_find :: "jsval \<Rightarrow> (jsval \<Rightarrow> error + bool) \<Rightarrow> error + jsval" where
  "array_find a p = (case a of JArr xs \<Rightarrow> find_js p xs | _ \<Rightarrow> Inl TypeError)"

section \<open>Data of the offline link\<close>

text \<open>The action that \<^verbatim>\<open>processMutation\<close> dispatches and \<^verbatim>\<open>discard\<close> receives.\<close>

record effect =
  eff_mutation :: jsval
  eff_variables :: jsval
  eff_refetchQueries :: jsval
  eff_doIt :: jsval

record descriptor =
  d_type :: string
  d_meta :: jsval

record offline_meta =
  effect :: effect
  commit :: descriptor
  rollback :: descriptor

record meta =
  offline :: offline_meta

record action =
  act_type :: string
  act_payload :: jsval
  act_meta :: meta

text \<open>
  The \<^verbatim>\<open>AASContext\<close> of an operation's context, and the operation. The context need
  not have an \<^verbatim>\<open>AASContext\<close>: \<open>None\<close> is an operation whose
  \<^verbatim>\<open>getContext().AASContext\<close> is \<^verbatim>\<open>undefined\<close>. A field absent from a context
  that is there is \<^verbatim>\<open>undefined\<close> (\<open>Val JUndefined\<close> for the optimistic response).
\<close>

record aas_context =
  ctx_mutation :: jsval
  ctx_variables :: jsval
  ctx_optimisticResponse :: "jsval js_or_fun"
  ctx_refetchQueries :: jsval
  ctx_doIt :: jsval

record operation =
  op_query :: jsval
  op_variables :: jsval
  op_AASContext :: "aas_context option"

text \<open>The argument of the user's conflict resolver.\<close>

record resolver_args =
  arg_mutation :: jsval
  arg_mutationName :: jsval
  arg_operationType :: jsval
  arg_variables :: jsval
  arg_data :: jsval
  arg_retries :: nat

text \<open>The argument of \<^verbatim>\<open>readQueryFromStore\<close> and of \<^verbatim>\<open>client.mutate\<close>.\<close>

record 'c read_options =
  rd_store :: 'c
  rd_query :: jsval
  rd_variables :: jsval

record mutate_options =
  opt_mutation :: jsval
  opt_variables :: jsval
  opt_refetchQueries :: jsval
  opt_context :: jsval

text \<open>
  What the file imports and this repository's sources do not contain: the two document
  helpers of apollo-utilities, the cache reader of apollo-cache-inmemory and the cache key
  of \<^verbatim>\<open>../cache\<close>. They are parameters of the model; each helper may throw.
\<close>

record 'c lib =
  getOperationDefinition :: "jsval \<Rightarrow> error + jsval"
  getOperationName :: "jsval \<Rightarrow> error + jsval"
  defaultNormalizedCacheFactory :: "jsval \<Rightarrow> 'c"
  readQueryFromStore :: "'c read_options \<Rightarrow> error + jsval"
  NORMALIZED_CACHE_KEY :: string

section \<open>The stream and the store\<close>

datatype notification = Next jsval | Error error | Complete

text \<open>
  What a subscription to the link's observable does, in order: actions dispatched to the
  redux store, calls of \<^verbatim>\<open>forward\<close>, notifications handed to the observer.
\<close>

datatype event = Dispatch action | Forward operation | Emit notification

record world =
  store_state :: jsval
  events :: "event list"

definition getState :: "world \<Rightarrow> jsval" where
  "getState w = store_state w"

text \<open>\<^verbatim>\<open>store.dispatch\<close>: the store's root reducer \<open>R\<close> (redux and redux-offline, not part
  of this file) gives the next state.\<close>

definition dispatch :: "(jsval \<Rightarrow> action \<Rightarrow> jsval) \<Rightarrow> action \<Rightarrow> world \<Rightarrow> world" where
  "dispatch R a w = w\<lparr>store_state := R (store_state w) a, events := events w @ [Dispatch a]\<rparr>"

definition observer_next :: "jsval \<Rightarrow> world \<Rightarrow> world" where
  "observer_next v w = w\<lparr>events := events w @ [Emit (Next v)]\<rparr>"

definition observer_complete :: "world \<Rightarrow> world" where
  "observer_complete w = w\<lparr>events := events w @ [Emit Complete]\<rparr>"

text \<open>\<^verbatim>\<open>forward(operation).subscribe(...)\<close> with the three callbacks bound to the
  observer: the downstream stream's notifications reach the observer as they are.\<close>

definition forward_subscribe ::
  "(operation \<Rightarrow> notification list) \<Rightarrow> operation \<Rightarrow> world \<Rightarrow> world" where
  "forward_subscribe forward operation w =
     w\<lparr>events := events w @ Forward operation # map Emit (forward operation)\<rparr>"

text \<open>The function a subscription returns: \<^verbatim>\<open>() => null\<close>, or the one that
  unsubscribes the downstream handle.\<close>

datatype cleanup = Noop | Unsubscribe

text \<open>The actions dispatched in a run, in order.\<close>

fun dispatched :: "event list \<Rightarrow> action list" where
  "dispatched [] = []"
| "dispatched (Dispatch a # es) = a # dispatched es"
| "dispatched (Forward operation # es) = dispatched es"
| "dispatched (Emit n # es) = dispatched es"

section \<open>The functions of offline-link.js\<close>

definition processOfflineQuery :: "'c lib \<Rightarrow> operation \<Rightarrow> world \<Rightarrow> error + jsval" where
  "processOfflineQuery L operation w =
     bindE (getprop_default (getState w) (NORMALIZED_CACHE_KEY L) (JObj [])) (\<lambda>normalizedCache.
       readQueryFromStore L
         \<lparr>rd_store = defaultNormalizedCacheFactory L normalizedCache,
          rd_query = op_query operation,
          rd_variables = op_variables operation\<rparr>)"

text \<open>The object that \<^verbatim>\<open>processMutation\<close> hands to \<^verbatim>\<open>theStore.dispatch\<close>, built
  from the fields of the operation's \<^verbatim>\<open>AASContext\<close>.\<close>

definition queueAction :: "aas_context \<Rightarrow> action" where
  "queueAction c =
     \<lparr>act_type = ''SOME_ACTION'',
      act_payload = JObj [],
      act_meta = \<lparr>offline =
        \<lparr>effect = \<lparr>eff_mutation = ctx_mutation c,
                    eff_variables = ctx_variables c,
                    eff_refetchQueries = ctx_refetchQueries c,
                    eff_doIt = JBool True\<rparr>,
         commit = \<lparr>d_type = ''SOME_ACTION_COMMIT'', d_meta = JNull\<rparr>,
         rollback = \<lparr>d_type = ''SOME_ACTION_ROLLBACK'', d_meta = JNull\<rparr>\<rparr>\<rparr>\<rparr>"

text \<open>\<^verbatim>\<open>processMutation\<close>. Destructuring an \<^verbatim>\<open>AASContext\<close> that is
  \<^verbatim>\<open>undefined\<close> (line 93) is a \<^verbatim>\<open>TypeError\<close>.\<close>

definition processMutation ::
  "(jsval \<Rightarrow> action \<Rightarrow> jsval) \<Rightarrow> operation \<Rightarrow> world \<Rightarrow> error + (jsval \<times> world)" where
  "processMutation R operation w =
     (case op_AASContext operation of
        None \<Rightarrow> Inl TypeError
      | Some c \<Rightarrow>
          if truthy (ctx_doIt c) then Inr (JUndefined, w)
          else
            bindE (case ctx_optimisticResponse c of
                     Fun f \<Rightarrow> bindE (f (ctx_variables c)) (\<lambda>r. Inr (spread r))
                   | Val v \<Rightarrow> Inr (if truthy v then v else JNull)) (\<lambda>data.
              Inr (data, dispatch R (queueAction c) w)))"

text \<open>The two destructuring statements that open \<^verbatim>\<open>request\<close>:
  \<^verbatim>\<open>const { offline: { online } } = this.store.getState()\<close> and
  \<^verbatim>\<open>const { operation: operationType } = getOperationDefinition(doc)\<close>, the second one
  also used by \<^verbatim>\<open>discard\<close>.\<close>

definition stateOnline :: "world \<Rightarrow> error + jsval" where
  "stateOnline w = bindE (getprop (getState w) ''offline'') (\<lambda>off. getprop off ''online'')"

definition operationTypeOf :: "'c lib \<Rightarrow> jsval \<Rightarrow> error + jsval" where
  "operationTypeOf L doc =
     bindE (getOperationDefinition L doc) (\<lambda>operationDefinition.
       getprop operationDefinition ''operation'')"

text \<open>
  \<^verbatim>\<open>OfflineLink.request\<close>: the body of the observable, run for a subscriber against
  the store as it is then. Every point where the body can throw comes before its first
  effect, so a thrown error leaves nothing else to report.
\<close>

definition request ::
  "'c lib \<Rightarrow> (jsval \<Rightarrow> action \<Rightarrow> jsval) \<Rightarrow> operation \<Rightarrow> (operation \<Rightarrow> notification list) \<Rightarrow>
     world \<Rightarrow> error + (cleanup \<times> world)" where
  "request L R operation forward w =
     bindE (stateOnline w) (\<lambda>online.
     bindE (operationTypeOf L (op_query operation)) (\<lambda>operationType.
       let isMutation = (operationType = JStr ''mutation'');
           isQuery = (operationType = JStr ''query'')
       in
       if \<not> truthy online \<and> isQuery then
         bindE (processOfflineQuery L operation w) (\<lambda>data.
           Inr (Noop, observer_complete (observer_next (JObj [(''data'', data)]) w)))
       else if isMutation then
         bindE (processMutation R operation w) (\<lambda>(data, w').
           if truthy data then
             Inr (Noop, observer_complete (observer_next (JObj [(''data'', data)]) w'))
           else
             Inr (Unsubscribe, forward_subscribe forward operation w'))
       else
         Inr (Unsubscribe, forward_subscribe forward operation w)))"

text \<open>\<^verbatim>\<open>offlineEffect\<close>: \<open>mutate\<close> is the client's \<^verbatim>\<open>mutate\<close> method.\<close>

definition offlineEffect :: "(mutate_options \<Rightarrow> 'r) \<Rightarrow> effect \<Rightarrow> action \<Rightarrow> 'r" where
  "offlineEffect mutate eff a =
     mutate \<lparr>opt_mutation = eff_mutation eff,
             opt_variables = eff_variables eff,
             opt_refetchQueries = eff_refetchQueries eff,
             opt_context = JObj [(''AASContext'', JObj [(''doIt'', eff_doIt eff)])]\<rparr>"

subsection \<open>discard\<close>

definition isConditionalCheck :: "jsval \<Rightarrow> error + bool" where
  "isConditionalCheck err =
     bindE (getprop err ''errorType'') (\<lambda>t.
       Inr (t = JStr ''DynamoDB:ConditionalCheckFailedException''))"

text \<open>\<^verbatim>\<open>err.errorType && err.errorType.startsWith('AWSAppSyncClient:')\<close>: only a string
  has a \<^verbatim>\<open>startsWith\<close> method.\<close>

definition isAppSyncClientError :: "jsval \<Rightarrow> error + bool" where
  "isAppSyncClientError err =
     bindE (getprop err ''errorType'') (\<lambda>t.
       if \<not> truthy t then Inr False
       else case t of
              JStr s \<Rightarrow> Inr (prefix ''AWSAppSyncClient:'' s)
            | _ \<Rightarrow> Inl TypeError)"

text \<open>\<^verbatim>\<open>action.meta.offline.effect\<close>, and the assignment
  \<^verbatim>\<open>action.meta.offline.effect.variables = v\<close>.\<close>

definition action_effect :: "action \<Rightarrow> effect" where
  "action_effect a = effect (offline (act_meta a))"

definition assign_effect_variables :: "jsval \<Rightarrow> action \<Rightarrow> action" where
  "assign_effect_variables v a =
     a\<lparr>act_meta := (act_meta a)\<lparr>offline := (offline (act_meta a))
        \<lparr>effect := (effect (offline (act_meta a)))\<lparr>eff_variables := v\<rparr>\<rparr>\<rparr>\<rparr>"

text \<open>The last line, \<^verbatim>\<open>return error.permanent || retries > 10\<close>.\<close>

definition permanent_or_retries :: "jsval \<Rightarrow> action \<Rightarrow> nat \<Rightarrow> error + (jsval \<times> action)" where
  "permanent_or_retries err a retries =
     bindE (getprop err ''permanent'') (\<lambda>p.
       Inr (if truthy p then p else JBool (retries > 10), a))"

text \<open>
  \<^verbatim>\<open>discard(fn)(error, action, retries)\<close>. The result is the returned value together
  with the action, whose effect's variables the function may have overwritten.
\<close>

definition discard ::
  "'c lib \<Rightarrow> resolver_args js_or_fun \<Rightarrow> jsval \<Rightarrow> action \<Rightarrow> nat \<Rightarrow> error + (jsval \<times> action)" where
  "discard L fn0 err a retries =
     (let fn = (case fn0 of Val JUndefined \<Rightarrow> Fun (\<lambda>_. Inr JNull) | _ \<Rightarrow> fn0) in
      bindE (getprop_default err ''graphQLErrors'' (JArr [])) (\<lambda>graphQLErrors.
      bindE (array_find graphQLErrors isConditionalCheck) (\<lambda>conditionalCheck.
        if truthy conditionalCheck then
          (case fn of
             Fun f \<Rightarrow>
               bindE (getprop conditionalCheck ''data'') (\<lambda>data.
               bindE (getprop conditionalCheck ''path'') (\<lambda>path.
               let mutation = eff_mutation (action_effect a);
                   variables = eff_variables (action_effect a)
               in
               bindE (getOperationName L mutation) (\<lambda>mutationName.
               bindE (operationTypeOf L mutation) (\<lambda>operationType.
                 case f \<lparr>arg_mutation = mutation,
                         arg_mutationName = mutationName,
                         arg_operationType = operationType,
                         arg_variables = variables,
                         arg_data = data,
                         arg_retries = retries\<rparr> of
                   Inl thrown \<Rightarrow> Inr (JBool True, a)
                 | Inr conflictResolutionResult \<Rightarrow>
                     if conflictResolutionResult = JStr ''DISCARD'' then Inr (JBool True, a)
                     else if truthy conflictResolutionResult then
                       Inr (JBool False, assign_effect_variables conflictResolutionResult a)
                     else permanent_or_retries err a retries))))
           | Val v \<Rightarrow> permanent_or_retries err a retries)
        else
          bindE (getprop graphQLErrors ''length'') (\<lambda>len.
            if truthy len then Inr (JBool True, a)
            else
              bindE (getprop_default err ''networkError'' (JObj [(''graphQLErrors'', JArr [])]))
                (\<lambda>networkError.
              bindE (getprop networkError ''graphQLErrors'') (\<lambda>graphQLErrors'.
              bindE (array_find graphQLErrors' isAppSyncClientError) (\<lambda>appSyncClientError.
                if truthy appSyncClientError then Inr (JBool True, a)
                else permanent_or_retries err a retries)))))))"

subsection \<open>The action as a shared object\<close>



section \<open>Example inputs\<close>

text \<open>
  A small stand-in for the imported helpers, used to run the model: a document is an
  object that carries its operation definition and its name, the cache reader returns the
  \<^verbatim>\<open>ROOT_QUERY\<close> entry of the snapshot and throws when the snapshot has none.
\<close>

definition example_lib :: "jsval lib" where
  "example_lib =
     \<lparr>getOperationDefinition = (\<lambda>doc. getprop doc ''definition''),
      getOperationName = (\<lambda>doc. getprop doc ''name''),
      defaultNormalizedCacheFactory = (\<lambda>c. c),
      readQueryFromStore = (\<lambda>opts.
        bindE (getprop (rd_store opts) ''ROOT_QUERY'') (\<lambda>root.
          if root = JUndefined then Inl (Thrown (JStr ''cache miss'')) else Inr root)),
      NORMALIZED_CACHE_KEY = ''appsync''\<rparr>"

definition example_reducer :: "jsval \<Rightarrow> action \<Rightarrow> jsval" where
  "example_reducer s a = s"

definition mutation_doc :: jsval where
  "mutation_doc =
     JObj [(''definition'', JObj [(''operation'', JStr ''mutation'')]),
           (''name'', JStr ''addTodo'')]"

definition query_doc :: jsval where
  "query_doc =
     JObj [(''definition'', JObj [(''operation'', JStr ''query'')]),
           (''name'', JStr ''listTodos'')]"

definition online_world :: world where
  "online_world =
     \<lparr>store_state = JObj [(''offline'', JObj [(''online'', JBool True)])], events = []\<rparr>"

definition offline_world :: world where
  "offline_world =
     \<lparr>store_state =
        JObj [(''offline'', JObj [(''online'', JBool False)]),
              (''appsync'', JObj [(''ROOT_QUERY'', JObj [(''todos'', JArr [])])])],
      events = []\<rparr>"

text \<open>A store that is offline and has nothing cached.\<close>

definition empty_offline_world :: world where
  "empty_offline_world =
     \<lparr>store_state = JObj [(''offline'', JObj [(''online'', JBool False)])], events = []\<rparr>"

definition downstream :: "operation \<Rightarrow> notification list" where
  "downstream operation = [Next (JObj [(''data'', JNull)]), Complete]"

text \<open>A mutation with its \<^verbatim>\<open>AASContext\<close>, and one whose context has none.\<close>

definition mutation_context :: "jsval js_or_fun \<Rightarrow> jsval \<Rightarrow> aas_context" where
  "mutation_context optimisticResponse doIt =
     \<lparr>ctx_mutation = mutation_doc,
      ctx_variables = JObj [(''title'', JStr ''a'')],
      ctx_optimisticResponse = optimisticResponse,
      ctx_refetchQueries = JUndefined,
      ctx_doIt = doIt\<rparr>"

definition mutation_operation :: "jsval js_or_fun \<Rightarrow> jsval \<Rightarrow> operation" where
  "mutation_operation optimisticResponse doIt =
     \<lparr>op_query = mutation_doc,
      op_variables = JObj [(''title'', JStr ''a'')],
      op_AASContext = Some (mutation_context optimisticResponse doIt)\<rparr>"

definition bare_mutation_operation :: operation where
  "bare_mutation_operation =
     \<lparr>op_query = mutation_doc,
      op_variables = JObj [(''title'', JStr ''a'')],
      op_AASContext = None\<rparr>"

definition query_operation :: operation where
  "query_operation =
     \<lparr>op_query = query_doc,
      op_variables = JObj [],
      op_AASContext = None\<rparr>"

definition queued_action :: action where
  "queued_action =
     \<lparr>act_type = ''SOME_ACTION'',
      act_payload = JObj [],
      act_meta = \<lparr>offline =
        \<lparr>effect = \<lparr>eff_mutation = mutation_doc,
                    eff_variables = JObj [(''v'', JNum 0)],
                    eff_refetchQueries = JUndefined,
                    eff_doIt = JBool True\<rparr>,
         commit = \<lparr>d_type = ''SOME_ACTION_COMMIT'', d_meta = JNull\<rparr>,
         rollback = \<lparr>d_type = ''SOME_ACTION_ROLLBACK'', d_meta = JNull\<rparr>\<rparr>\<rparr>\<rparr>"

definition conditional_check_error :: jsval where
  "conditional_check_error =
     JObj [(''graphQLErrors'',
            JArr [JObj [(''errorType'', JStr ''DynamoDB:ConditionalCheckFailedException''),
                        (''data'', JObj [(''v'', JNum 1)]),
                        (''path'', JArr [JStr ''x''])]])]"

text \<open>An error as a failed request gives it: no GraphQL errors, and a network error that
  is a plain \<^verbatim>\<open>Error\<close> object.\<close>

definition network_failure :: jsval where
  "network_failure =
     JObj [(''graphQLErrors'', JArr []),
           (''networkError'', JObj [(''message'', JStr ''Network request failed'')]),
           (''permanent'', JBool False)]"

definition bare_network_error :: jsval where
  "bare_network_error =
     JObj [(''graphQLErrors'', JArr []), (''networkError'', JObj [])]"

definition generic_error :: jsval where
  "generic_error = JObj [(''permanent'', JBool False)]"


definition throwing_resolver :: "resolver_args \<Rightarrow> error + jsval" where
  "throwing_resolver args = Inl (Thrown (JStr ''resolver failed''))"





definition optimistic_todo :: "jsval \<Rightarrow> error + jsval" where
  "optimistic_todo variables = Inr (JObj [(''addTodo'', variables)])"

definition static_todo :: jsval where
  "static_todo = JObj [(''addTodo'', JObj [(''title'', JStr ''a'')])]"

text \<open>The \<^verbatim>\<open>doIt\<close> fields of the effects that a run of \<^verbatim>\<open>request\<close> has enqueued.\<close>

definition enqueued_doIt :: "error + (cleanup \<times> world) \<Rightarrow> jsval list" where
  "enqueued_doIt r =
     (case r of
        Inl e \<Rightarrow> []
      | Inr (c, w) \<Rightarrow> map (\<lambda>a. eff_doIt (action_effect a)) (dispatched (events w)))"

section \<open>Properties\<close>

subsection \<open>Auxiliary facts\<close>

lemmas example_defs =
  example_lib_def example_reducer_def mutation_doc_def online_world_def downstream_def
  mutation_operation_def queued_action_def

lemmas model_defs =
  stateOnline_def operationTypeOf_def getState_def bindE_def lookup_def getprop_default_def
  action_effect_def isConditionalCheck_def

lemmas world_ops = dispatch_def observer_next_def observer_complete_def forward_subscribe_def

lemma dispatched_append: "dispatched (xs @ ys) = dispatched xs @ dispatched ys"
  by (induction xs rule: dispatched.induct) simp_all

lemma dispatched_map_Emit: "dispatched (map Emit ns) = []"
  by (induction ns) simp_all

text \<open>A spread is an object, and an object is truthy: an optimistic response that is a
  function always yields data that \<^verbatim>\<open>if (data)\<close> accepts.\<close>

lemma truthy_spread: "truthy (spread r)"
  by (cases r) simp_all

lemma find_js_first:
  "\<forall>x\<in>set pre. p x = Inr False \<Longrightarrow> p c = Inr True \<Longrightarrow> find_js p (pre @ c # post) = Inr c"
  by (induction pre) simp_all

lemma find_js_none: "\<forall>x\<in>set es. p x = Inr False \<Longrightarrow> find_js p es = Inr JUndefined"
  by (induction es) simp_all

text \<open>The first entry of \<^verbatim>\<open>error.graphQLErrors\<close> that is a conditional-check failure
  is what \<^verbatim>\<open>find\<close> returns.\<close>

lemma conditional_check_found:
  assumes "getprop err ''graphQLErrors'' = Inr (JArr (pre @ JObj cc # post))"
      and "\<forall>x\<in>set pre. isConditionalCheck x = Inr False"
      and "lookup cc ''errorType'' = JStr ''DynamoDB:ConditionalCheckFailedException''"
  shows "getprop_default err ''graphQLErrors'' (JArr []) = Inr (JArr (pre @ JObj cc # post))"
    and "array_find (JArr (pre @ JObj cc # post)) isConditionalCheck = Inr (JObj cc)"
proof -
  show "getprop_default err ''graphQLErrors'' (JArr []) = Inr (JArr (pre @ JObj cc # post))"
    using assms(1) by (simp add: getprop_default_def bindE_def)
  have "isConditionalCheck (JObj cc) = Inr True"
    using assms(3) by (simp add: isConditionalCheck_def bindE_def)
  with assms(2) show "array_find (JArr (pre @ JObj cc # post)) isConditionalCheck = Inr (JObj cc)"
    by (simp add: array_find_def find_js_first)
qed




subsection \<open>The interceptor\<close>

text \<open>
  C1, as the code has it. A mutation that is not a replay (\<^verbatim>\<open>doIt\<close> falsy in its
  context) and that \<^verbatim>\<open>request\<close> processes without throwing dispatches exactly one
  action, and the effect in that action carries \<^verbatim>\<open>doIt: true\<close> from the moment it is
  enqueued. \<^verbatim>\<open>offlineEffect\<close> later copies the field as it is into the context of the
  replayed mutation; nothing in between changes it.
\<close>

theorem enqueued_effect_doIt_true:
  assumes "operationTypeOf L (op_query operation) = Inr (JStr ''mutation'')"
      and "op_AASContext operation = Some ctx"
      and "\<not> truthy (ctx_doIt ctx)"
      and "request L R operation forward w = Inr (c, w')"
  shows "dispatched (events w') = dispatched (events w) @ [queueAction ctx]
         \<and> eff_doIt (action_effect (queueAction ctx)) = JBool True
         \<and> offlineEffect mutate (action_effect (queueAction ctx)) act =
             mutate \<lparr>opt_mutation = ctx_mutation ctx,
                     opt_variables = ctx_variables ctx,
                     opt_refetchQueries = ctx_refetchQueries ctx,
                     opt_context = JObj [(''AASContext'', JObj [(''doIt'', JBool True)])]\<rparr>"
proof -
  have "dispatched (events w') = dispatched (events w) @ [queueAction ctx]"
    using assms
    by (auto simp: request_def processMutation_def bindE_def world_ops dispatched_append
        dispatched_map_Emit Let_def split: sum.splits js_or_fun.splits if_splits)
  then show ?thesis
    by (simp add: queueAction_def action_effect_def offlineEffect_def)
qed

text \<open>The theorem at a mutation without optimistic response, on a store that is online.\<close>

theorem enqueued_effect_doIt_true_witness:
  "\<exists>c w'. request example_lib example_reducer (mutation_operation (Val JUndefined) JUndefined)
             downstream online_world = Inr (c, w')
     \<and> dispatched (events w') = [queueAction (mutation_context (Val JUndefined) JUndefined)]
     \<and> eff_doIt (action_effect (queueAction (mutation_context (Val JUndefined) JUndefined)))
         = JBool True"
proof -
  let ?op = "mutation_operation (Val JUndefined) JUndefined"
  let ?ctx = "mutation_context (Val JUndefined) JUndefined"
  let ?w' = "forward_subscribe downstream ?op
               (dispatch example_reducer (queueAction ?ctx) online_world)"
  have kind: "operationTypeOf example_lib (op_query ?op) = Inr (JStr ''mutation'')"
    by (simp add: model_defs example_defs)
  have ctx: "op_AASContext ?op = Some ?ctx"
    by (simp add: example_defs)
  have fresh: "\<not> truthy (ctx_doIt ?ctx)"
    by (simp add: mutation_context_def)
  have run: "request example_lib example_reducer ?op downstream online_world
               = Inr (Unsubscribe, ?w')"
    by (simp add: request_def processMutation_def model_defs example_defs mutation_context_def)
  have "dispatched (events online_world) = []"
    by (simp add: example_defs)
  with enqueued_effect_doIt_true [OF kind ctx fresh run] run show ?thesis
    by auto
qed

text \<open>
  C1 as the specification words it (the enqueued effect has the flag \<^verbatim>\<open>false\<close>) fails:
  the one effect that this run enqueues has \<^verbatim>\<open>doIt\<close> equal to \<^verbatim>\<open>true\<close>.
\<close>

theorem enqueued_effect_doIt_not_false:
  "enqueued_doIt (request example_lib example_reducer
       (mutation_operation (Val JUndefined) JUndefined) downstream online_world) = [JBool True]
   \<and> enqueued_doIt (request example_lib example_reducer
       (mutation_operation (Val JUndefined) JUndefined) downstream online_world) \<noteq> [JBool False]"
  by (simp add: enqueued_doIt_def request_def processMutation_def world_ops queueAction_def
      model_defs example_defs mutation_context_def)

text \<open>
  C2. A mutation that is not a replay and declares an optimistic response, either a
  (truthy) value or a function that returns for the variables, emits one result, the
  optimistic data, and completes; \<^verbatim>\<open>forward\<close> is not called. The data is the value itself,
  or the shallow copy \<^verbatim>\<open>{ ...f(variables) }\<close> of what the function returns. The only
  other effect of the call is the dispatch of the queue action.
\<close>

theorem optimistic_response_sole_result:
  assumes "stateOnline w = Inr online"
      and "operationTypeOf L (op_query operation) = Inr (JStr ''mutation'')"
      and "op_AASContext operation = Some ctx"
      and "\<not> truthy (ctx_doIt ctx)"
      and "(ctx_optimisticResponse ctx = Val v \<and> truthy v) \<or>
           (\<exists>f r. ctx_optimisticResponse ctx = Fun f
                 \<and> f (ctx_variables ctx) = Inr r \<and> v = spread r)"
  shows "request L R operation forward w =
           Inr (Noop,
                \<lparr>store_state = R (store_state w) (queueAction ctx),
                 events = events w @ [Dispatch (queueAction ctx),
                                      Emit (Next (JObj [(''data'', v)])),
                                      Emit Complete]\<rparr>)"
  using assms truthy_spread
  by (auto simp: request_def processMutation_def bindE_def world_ops Let_def)

text \<open>The theorem at a static optimistic response and at one computed from the
  variables.\<close>

theorem optimistic_response_sole_result_witness:
  "request example_lib example_reducer (mutation_operation (Val static_todo) JUndefined)
     downstream online_world =
   Inr (Noop,
        \<lparr>store_state = store_state online_world,
         events = [Dispatch (queueAction (mutation_context (Val static_todo) JUndefined)),
                   Emit (Next (JObj [(''data'', static_todo)])),
                   Emit Complete]\<rparr>)
   \<and> request example_lib example_reducer (mutation_operation (Fun optimistic_todo) JUndefined)
       downstream online_world =
     Inr (Noop,
          \<lparr>store_state = store_state online_world,
           events = [Dispatch (queueAction (mutation_context (Fun optimistic_todo) JUndefined)),
                     Emit (Next (JObj [(''data'',
                        JObj [(''addTodo'', JObj [(''title'', JStr ''a'')])])])),
                     Emit Complete]\<rparr>)"
  using optimistic_response_sole_result
          [of online_world "JBool True" example_lib
              "mutation_operation (Val static_todo) JUndefined"
              "mutation_context (Val static_todo) JUndefined" static_todo
              example_reducer downstream]
        optimistic_response_sole_result
          [of online_world "JBool True" example_lib
              "mutation_operation (Fun optimistic_todo) JUndefined"
              "mutation_context (Fun optimistic_todo) JUndefined"
              "JObj [(''addTodo'', JObj [(''title'', JStr ''a'')])]"
              example_reducer downstream]
  by (simp add: model_defs example_defs mutation_context_def static_todo_def
      optimistic_todo_def)

text \<open>
  C3, as the code has it. A mutation whose context carries an \<^verbatim>\<open>AASContext\<close> that
  marks no replay and declares no optimistic response (the field is absent or falsy) does
  both things in one call: it dispatches one action, of type \<^verbatim>\<open>SOME_ACTION\<close>, whose
  effect holds the context's mutation, variables and refetch queries together with the
  commit and rollback descriptors, and it calls \<^verbatim>\<open>forward\<close> with the operation, whose
  notifications it relays.
\<close>

theorem mutation_without_optimistic_enqueued_and_forwarded:
  assumes "stateOnline w = Inr online"
      and "operationTypeOf L (op_query operation) = Inr (JStr ''mutation'')"
      and "op_AASContext operation = Some ctx"
      and "\<not> truthy (ctx_doIt ctx)"
      and "ctx_optimisticResponse ctx = Val v"
      and "\<not> truthy v"
  shows "request L R operation forward w =
           Inr (Unsubscribe,
                \<lparr>store_state = R (store_state w) (queueAction ctx),
                 events = events w @ Dispatch (queueAction ctx)
                            # Forward operation # map Emit (forward operation)\<rparr>)
         \<and> queueAction ctx =
             \<lparr>act_type = ''SOME_ACTION'',
              act_payload = JObj [],
              act_meta = \<lparr>offline =
                \<lparr>effect = \<lparr>eff_mutation = ctx_mutation ctx,
                            eff_variables = ctx_variables ctx,
                            eff_refetchQueries = ctx_refetchQueries ctx,
                            eff_doIt = JBool True\<rparr>,
                 commit = \<lparr>d_type = ''SOME_ACTION_COMMIT'', d_meta = JNull\<rparr>,
                 rollback = \<lparr>d_type = ''SOME_ACTION_ROLLBACK'', d_meta = JNull\<rparr>\<rparr>\<rparr>\<rparr>"
proof
  show "request L R operation forward w =
           Inr (Unsubscribe,
                \<lparr>store_state = R (store_state w) (queueAction ctx),
                 events = events w @ Dispatch (queueAction ctx)
                            # Forward operation # map Emit (forward operation)\<rparr>)"
    using assms
    by (auto simp: request_def processMutation_def bindE_def world_ops Let_def)
next
  show "queueAction ctx =
             \<lparr>act_type = ''SOME_ACTION'',
              act_payload = JObj [],
              act_meta = \<lparr>offline =
                \<lparr>effect = \<lparr>eff_mutation = ctx_mutation ctx,
                            eff_variables = ctx_variables ctx,
                            eff_refetchQueries = ctx_refetchQueries ctx,
                            eff_doIt = JBool True\<rparr>,
                 commit = \<lparr>d_type = ''SOME_ACTION_COMMIT'', d_meta = JNull\<rparr>,
                 rollback = \<lparr>d_type = ''SOME_ACTION_ROLLBACK'', d_meta = JNull\<rparr>\<rparr>\<rparr>\<rparr>"
    by (simp add: queueAction_def)
qed

text \<open>The theorem at a mutation with variables \<^verbatim>\<open>{ title: 'a' }\<close> and nothing else
  declared: the events of the run, with the dispatched action written out.\<close>

theorem mutation_without_optimistic_enqueued_and_forwarded_witness:
  "request example_lib example_reducer (mutation_operation (Val JUndefined) JUndefined)
     downstream online_world =
   Inr (Unsubscribe,
        \<lparr>store_state = store_state online_world,
         events =
           [Dispatch
              \<lparr>act_type = ''SOME_ACTION'',
               act_payload = JObj [],
               act_meta = \<lparr>offline =
                 \<lparr>effect = \<lparr>eff_mutation = mutation_doc,
                             eff_variables = JObj [(''title'', JStr ''a'')],
                             eff_refetchQueries = JUndefined,
                             eff_doIt = JBool True\<rparr>,
                  commit = \<lparr>d_type = ''SOME_ACTION_COMMIT'', d_meta = JNull\<rparr>,
                  rollback = \<lparr>d_type = ''SOME_ACTION_ROLLBACK'', d_meta = JNull\<rparr>\<rparr>\<rparr>\<rparr>,
            Forward (mutation_operation (Val JUndefined) JUndefined),
            Emit (Next (JObj [(''data'', JNull)])),
            Emit Complete]\<rparr>)"
proof -
  let ?op = "mutation_operation (Val JUndefined) JUndefined"
  let ?ctx = "mutation_context (Val JUndefined) JUndefined"
  have online: "stateOnline online_world = Inr (JBool True)"
    by (simp add: model_defs example_defs)
  have kind: "operationTypeOf example_lib (op_query ?op) = Inr (JStr ''mutation'')"
    by (simp add: model_defs example_defs)
  have ctx: "op_AASContext ?op = Some ?ctx"
    by (simp add: example_defs)
  have fresh: "\<not> truthy (ctx_doIt ?ctx)"
    by (simp add: mutation_context_def)
  have none: "ctx_optimisticResponse ?ctx = Val JUndefined"
    by (simp add: mutation_context_def)
  have falsy: "\<not> truthy JUndefined"
    by simp
  from mutation_without_optimistic_enqueued_and_forwarded
         [OF online kind ctx fresh none falsy, of example_reducer downstream]
  have run: "request example_lib example_reducer ?op downstream online_world =
           Inr (Unsubscribe,
                \<lparr>store_state = example_reducer (store_state online_world) (queueAction ?ctx),
                 events = events online_world @ Dispatch (queueAction ?ctx)
                            # Forward ?op # map Emit (downstream ?op)\<rparr>)"
    and shape: "queueAction ?ctx =
             \<lparr>act_type = ''SOME_ACTION'',
              act_payload = JObj [],
              act_meta = \<lparr>offline =
                \<lparr>effect = \<lparr>eff_mutation = ctx_mutation ?ctx,
                            eff_variables = ctx_variables ?ctx,
                            eff_refetchQueries = ctx_refetchQueries ?ctx,
                            eff_doIt = JBool True\<rparr>,
                 commit = \<lparr>d_type = ''SOME_ACTION_COMMIT'', d_meta = JNull\<rparr>,
                 rollback = \<lparr>d_type = ''SOME_ACTION_ROLLBACK'', d_meta = JNull\<rparr>\<rparr>\<rparr>\<rparr>"
    by simp_all
  show ?thesis
    unfolding run shape
    by (simp add: mutation_context_def example_reducer_def online_world_def downstream_def)
qed

text \<open>
  C3 as the specification words it, for every non-replay mutation without a declared
  optimistic response, fails on a mutation whose context has no \<^verbatim>\<open>AASContext\<close>: the
  call throws a \<^verbatim>\<open>TypeError\<close> where \<^verbatim>\<open>processMutation\<close> destructures the context,
  before anything is dispatched or forwarded.
\<close>

theorem mutation_without_context_throws:
  "request example_lib example_reducer bare_mutation_operation downstream online_world
     = Inl TypeError"
  by (simp add: request_def processMutation_def model_defs example_defs
      bare_mutation_operation_def)

text \<open>
  C7, as the code has it. A query issued while the store's \<^verbatim>\<open>online\<close> flag is falsy
  never reaches \<^verbatim>\<open>forward\<close>, and the run is decided by the read of the query and its
  variables from the current cache snapshot: if the read returns data, the stream emits
  that data as its one result and completes, and the store is left as it was; if the read
  throws, the subscriber throws the same error and nothing is emitted.
\<close>

theorem offline_query_answered_from_cache:
  assumes "stateOnline w = Inr online"
      and "\<not> truthy online"
      and "operationTypeOf L (op_query operation) = Inr (JStr ''query'')"
      and "getprop_default (getState w) (NORMALIZED_CACHE_KEY L) (JObj []) = Inr normalizedCache"
  shows "request L R operation forward w =
           (case readQueryFromStore L
                   \<lparr>rd_store = defaultNormalizedCacheFactory L normalizedCache,
                    rd_query = op_query operation,
                    rd_variables = op_variables operation\<rparr> of
              Inl e \<Rightarrow> Inl e
            | Inr data \<Rightarrow>
                Inr (Noop,
                     \<lparr>store_state = store_state w,
                      events = events w @ [Emit (Next (JObj [(''data'', data)])),
                                           Emit Complete]\<rparr>))"
  using assms
  by (auto simp: request_def processOfflineQuery_def bindE_def world_ops split: sum.splits)

theorem offline_query_answered_from_cache_witness:
  "request example_lib example_reducer query_operation downstream offline_world =
   Inr (Noop,
        \<lparr>store_state = store_state offline_world,
         events = [Emit (Next (JObj [(''data'', JObj [(''todos'', JArr [])])])),
                   Emit Complete]\<rparr>)"
  using offline_query_answered_from_cache
          [of offline_world "JBool False" example_lib query_operation
              "JObj [(''ROOT_QUERY'', JObj [(''todos'', JArr [])])]"
              example_reducer downstream]
  by (simp add: model_defs example_defs query_doc_def query_operation_def
      offline_world_def)

text \<open>
  C7 as the specification words it, for every offline query exactly one result and then
  completion, fails when the cache cannot answer the query: on a store that is offline and
  has nothing cached the read throws, and the run ends with that error, without a result
  and without completion.
\<close>

theorem offline_query_cache_miss_throws:
  "request example_lib example_reducer query_operation downstream empty_offline_world
     = Inl (Thrown (JStr ''cache miss''))"
  by (simp add: request_def processOfflineQuery_def model_defs example_defs query_doc_def
      query_operation_def empty_offline_world_def)

text \<open>
  C8. A mutation whose context marks it as a replay (\<^verbatim>\<open>doIt\<close> truthy) is passed
  through: nothing is dispatched and the store's state is the one before the call, the
  operation goes to \<^verbatim>\<open>forward\<close> once, and the observer receives the downstream
  notifications and nothing else, so no optimistic result.
\<close>

theorem replay_passes_through:
  assumes "stateOnline w = Inr online"
      and "operationTypeOf L (op_query operation) = Inr (JStr ''mutation'')"
      and "op_AASContext operation = Some ctx"
      and "truthy (ctx_doIt ctx)"
  shows "request L R operation forward w =
           Inr (Unsubscribe,
                \<lparr>store_state = store_state w,
                 events = events w @ Forward operation # map Emit (forward operation)\<rparr>)"
  using assms
  by (auto simp: request_def processMutation_def bindE_def world_ops Let_def)

theorem replay_passes_through_witness:
  "request example_lib example_reducer (mutation_operation (Val static_todo) (JBool True))
     downstream online_world =
   Inr (Unsubscribe,
        \<lparr>store_state = store_state online_world,
         events = [Forward (mutation_operation (Val static_todo) (JBool True)),
                   Emit (Next (JObj [(''data'', JNull)])),
                   Emit Complete]\<rparr>)"
  using replay_passes_through
          [of online_world "JBool True" example_lib
              "mutation_operation (Val static_todo) (JBool True)"
              "mutation_context (Val static_todo) (JBool True)" example_reducer downstream]
  by (simp add: model_defs example_defs mutation_context_def static_todo_def)

subsection \<open>The discard predicate\<close>



text \<open>
  C6. With a conditional-check entry in the error, a resolver that throws when it is
  called makes \<^verbatim>\<open>discard\<close> return \<^verbatim>\<open>true\<close>: the result is a value, not the thrown
  error, and the action is untouched.
\<close>

theorem resolver_exception_discards:
  assumes "getprop err ''graphQLErrors'' = Inr (JArr (pre @ JObj cc # post))"
      and "\<forall>x\<in>set pre. isConditionalCheck x = Inr False"
      and "lookup cc ''errorType'' = JStr ''DynamoDB:ConditionalCheckFailedException''"
      and "getOperationName L (eff_mutation (action_effect a)) = Inr mutationName"
      and "operationTypeOf L (eff_mutation (action_effect a)) = Inr operationType"
      and "f \<lparr>arg_mutation = eff_mutation (action_effect a),
              arg_mutationName = mutationName,
              arg_operationType = operationType,
              arg_variables = eff_variables (action_effect a),
              arg_data = lookup cc ''data'',
              arg_retries = retries\<rparr> = Inl thrown"
  shows "discard L (Fun f) err a retries = Inr (JBool True, a)"
proof -
  note found = conditional_check_found [OF assms(1-3)]
  show ?thesis
    using found assms(4-6) by (simp add: discard_def bindE_def)
qed

text \<open>Scenario C of the specification.\<close>

theorem resolver_exception_discards_witness:
  "discard example_lib (Fun throwing_resolver) conditional_check_error queued_action 0 =
     Inr (JBool True, queued_action)"
  using resolver_exception_discards
          [of conditional_check_error "[]"
              "[(''errorType'', JStr ''DynamoDB:ConditionalCheckFailedException''),
                (''data'', JObj [(''v'', JNum 1)]),
                (''path'', JArr [JStr ''x''])]"
              "[]" example_lib queued_action "JStr ''addTodo''" "JStr ''mutation''"
              throwing_resolver 0 "Thrown (JStr ''resolver failed'')"]
  by (simp add: model_defs example_defs conditional_check_error_def
      throwing_resolver_def)




text \<open>
  C10. An error without GraphQL errors (the list is empty or absent) whose
  \<^verbatim>\<open>networkError\<close> is present and has no \<^verbatim>\<open>graphQLErrors\<close> property makes
  \<^verbatim>\<open>discard\<close> throw a \<^verbatim>\<open>TypeError\<close>, whatever the resolver, the action and the retry
  count: the default \<^verbatim>\<open>{ graphQLErrors: [] }\<close> of the destructuring pattern is used only
  for an absent \<^verbatim>\<open>networkError\<close>, and \<^verbatim>\<open>find\<close> is then called on \<^verbatim>\<open>undefined\<close>.
\<close>

theorem discard_type_error_without_nested_list:
  assumes "getprop_default err ''graphQLErrors'' (JArr []) = Inr (JArr [])"
      and "getprop err ''networkError'' = Inr networkError"
      and "networkError \<noteq> JUndefined"
      and "getprop networkError ''graphQLErrors'' = Inr JUndefined"
  shows "discard L fn err a retries = Inl TypeError"
  using assms
  by (simp add: discard_def bindE_def array_find_def getprop_default_def Let_def)

theorem discard_type_error_without_nested_list_witness:
  "discard example_lib (Val JUndefined) bare_network_error queued_action 0 = Inl TypeError"
  using discard_type_error_without_nested_list
          [of bare_network_error "JObj []" example_lib "Val JUndefined" queued_action 0]
  by (simp add: model_defs example_defs bare_network_error_def)

text \<open>
  C4. The retry ceiling is what the last line of \<^verbatim>\<open>discard\<close> computes, but the code does
  not reach that line for the error of a failed request: no GraphQL errors, a
  \<^verbatim>\<open>networkError\<close> that is a plain error object (so it carries no client-protocol
  entry), \<^verbatim>\<open>permanent\<close> false. At retry count 3 the claim asks for \<^verbatim>\<open>false\<close>; the code
  throws.
\<close>

theorem retry_ceiling_fails_on_network_failure:
  "discard example_lib (Val JUndefined) network_failure queued_action 3 = Inl TypeError"
  by (simp add: discard_def array_find_def Let_def model_defs example_defs network_failure_def)

text \<open>
  Where the nested list is there, or \<^verbatim>\<open>networkError\<close> is absent, the ceiling holds as
  stated: without a conditional-check entry, a GraphQL error or a client-protocol entry,
  and with \<^verbatim>\<open>permanent\<close> falsy, the result is \<^verbatim>\<open>retries > 10\<close> and the action is
  untouched.
\<close>

lemma retry_ceiling_with_listed_network_errors:
  assumes "getprop_default err ''graphQLErrors'' (JArr []) = Inr (JArr [])"
      and "getprop_default err ''networkError'' (JObj [(''graphQLErrors'', JArr [])])
             = Inr networkError"
      and "getprop networkError ''graphQLErrors'' = Inr (JArr es)"
      and "\<forall>x\<in>set es. isAppSyncClientError x = Inr False"
      and "getprop err ''permanent'' = Inr p"
      and "\<not> truthy p"
  shows "discard L fn err a retries = Inr (JBool (retries > 10), a)"
  using assms
  by (simp add: discard_def bindE_def array_find_def Let_def find_js_none
      permanent_or_retries_def)

text \<open>Scenario F of the specification, and the same error past the ceiling.\<close>

lemma retry_ceiling_generic_error:
  "discard example_lib (Val JUndefined) generic_error queued_action 3
     = Inr (JBool False, queued_action)"
  "discard example_lib (Val JUndefined) generic_error queued_action 11
     = Inr (JBool True, queued_action)"
  by (simp_all add: discard_def array_find_def Let_def permanent_or_retries_def
      model_defs example_defs generic_error_def)

end
